theory Spec2Isabelle
  imports Main
begin

section \<open>Download as EML: the IMAP download operation\<close>

text \<open>
  The operation \<open>downloadOperation.executeImapAction\<close> opens a mailbox read-only, fetches
  either one message by UID or every message matching the search parameters, and turns each
  message into one output item. Two versions are embedded: the dual-mode routine and the
  original single-UID routine in \<open>EmailDownload.ts\<close>.

  Everything the routine awaits from its collaborators (the IMAP client, the host's
  staging helper) is an input of the model, and each such call may reject.
\<close>

subsection \<open>Values of the runtime\<close>

text \<open>
  A thrown value: \<open>Error msg\<close> is \<open>new Error(msg)\<close>, \<open>TypeError msg\<close> is what reading a
  property of \<open>undefined\<close> raises. Collaborators reject with values of the same type.
\<close>

datatype error = Error string | TypeError string

text \<open>A \<open>Buffer\<close> is a byte sequence; \<open>string\<close> is a list of 8-bit characters.\<close>

type_synonym buffer = string

text \<open>
  Number to string conversion as \<open>+\<close> performs it on a non-negative integer: the decimal
  digits without leading zeros (exact for every integer below \<open>2^53\<close>; an IMAP UID is
  below \<open>2^32\<close>).
\<close>

definition digit :: "nat \<Rightarrow> char" where
  "digit d = char_of (48 + d)"

function numberToString :: "nat \<Rightarrow> string" where
  "numberToString n =
     (if n < 10 then [digit n] else numberToString (n div 10) @ [digit (n mod 10)])"
  by pat_completeness auto
termination
  by (relation "measure id") auto

declare numberToString.simps [simp del]

subsection \<open>The IMAP client\<close>

text \<open>
  \<open>FetchMessageObject\<close>, as far as the routine reads it. The single-UID path tests
  \<open>!emailInfo.source\<close>, so a message may come without its source; a \<open>Buffer\<close> object is
  truthy whatever its length.
\<close>

record fetchMessage =
  uid :: nat
  source :: "buffer option"

text \<open>\<open>FetchQueryObject\<close>: the routine builds \<open>{ uid: true, source: true }\<close>.\<close>

record fetchQueryObject =
  want_uid :: bool
  want_source :: bool

definition query :: fetchQueryObject where
  "query = \<lparr>want_uid = True, want_source = True\<rparr>"

text \<open>
  The async generator returned by \<open>client.fetch\<close>: finite and one-shot. It ends normally
  (\<open>Done\<close>), delivers a message and continues (\<open>Yield\<close>), or rejects (\<open>Raise\<close>).
\<close>

datatype stream = Done | Yield fetchMessage stream | Raise error

text \<open>
  The client once \<open>mailboxOpen\<close> has resolved. \<open>fetchOne seq query uid\<close> resolves to the
  message or to \<open>false\<close> (\<open>None\<close>), or rejects; the last argument is the option
  \<open>{ uid: true }\<close>.
\<close>

record 's selected =
  fetchOne :: "string \<Rightarrow> fetchQueryObject \<Rightarrow> bool \<Rightarrow> error + fetchMessage option"
  fetch :: "'s \<Rightarrow> fetchQueryObject \<Rightarrow> stream"

text \<open>\<open>ImapFlow\<close>: \<open>mailboxOpen path readOnly\<close> rejects or selects the mailbox.\<close>

record 's imapFlow =
  mailboxOpen :: "string \<Rightarrow> bool \<Rightarrow> error + 's selected"

subsection \<open>The execution context of the host\<close>

text \<open>
  \<open>IExecuteFunctions\<close>: the parameters per input item and the staging helper.
  A parameter read with a fallback value may be unset (\<open>None\<close>).
  \<open>getMailboxPathFromNodeParameter\<close> and \<open>getEmailSearchParametersFromNode\<close> live in
  \<open>utils/\<close>; their results are taken as given. \<open>prepareBinaryData data fileName mimeType\<close>
  is the host's helper; it resolves to an \<open>IBinaryData\<close> of type \<open>'b\<close> or rejects.
\<close>

record ('s, 'b) executeFunctions =
  getMailboxPathFromNodeParameter :: "nat \<Rightarrow> string"
  emailUidParameter :: "nat \<Rightarrow> string"
  outputToBinaryParameter :: "nat \<Rightarrow> bool option"
  binaryPropertyNameParameter :: "nat \<Rightarrow> string option"
  getEmailSearchParametersFromNode :: "nat \<Rightarrow> 's"
  prepareBinaryData :: "buffer option \<Rightarrow> string \<Rightarrow> string \<Rightarrow> error + 'b"

text \<open>\<open>context.getNodeParameter(name, itemIndex, fallback)\<close>.\<close>

definition getNodeParameter :: "'a option \<Rightarrow> 'a \<Rightarrow> 'a" where
  "getNodeParameter v fallback = (case v of None \<Rightarrow> fallback | Some x \<Rightarrow> x)"

subsection \<open>Output items\<close>

text \<open>
  \<open>INodeExecutionData\<close>: \<open>json\<close> is an \<open>IDataObject\<close> (only string values occur here),
  \<open>binary\<close> is \<open>IBinaryKeyData | undefined\<close>, \<open>pairedItem\<close> is \<open>{ item: itemIndex }\<close>.
\<close>

record 'b nodeExecutionData =
  json :: "string \<rightharpoonup> string"
  binary :: "(string \<rightharpoonup> 'b) option"
  pairedItem :: nat

subsection \<open>The dual-mode routine\<close>

text \<open>
  The body of the \<open>for await\<close> loop for one delivered \<open>email\<close>. \<open>toString\<close> is
  \<open>Buffer.prototype.toString\<close>, the runtime's UTF-8 decoder. In text mode
  \<open>email.source.toString()\<close> raises a \<open>TypeError\<close> when the source is \<open>undefined\<close>.
\<close>

definition loopBody ::
  "(buffer \<Rightarrow> string) \<Rightarrow> ('s, 'b) executeFunctions \<Rightarrow> nat \<Rightarrow> string \<Rightarrow> bool \<Rightarrow> string \<Rightarrow>
   fetchMessage \<Rightarrow> error + 'b nodeExecutionData" where
  "loopBody toString context itemIndex mailboxPath outputToBinary binaryPropertyName email =
     (if outputToBinary then
        (case prepareBinaryData context (source email)
                (mailboxPath @ ''_'' @ numberToString (uid email) @ ''.eml'') ''message/rfc822'' of
           Inl e \<Rightarrow> Inl e
         | Inr binaryData \<Rightarrow>
             Inr \<lparr>json = Map.empty,
                  binary = Some (Map.empty(binaryPropertyName \<mapsto> binaryData)),
                  pairedItem = itemIndex\<rparr>)
      else
        (case source email of
           None \<Rightarrow> Inl (TypeError ''Cannot read properties of undefined (reading 'toString')'')
         | Some src \<Rightarrow>
             Inr \<lparr>json = Map.empty(''emlContent'' \<mapsto> toString src),
                  binary = None,
                  pairedItem = itemIndex\<rparr>))"

text \<open>
  The loop \<open>for await (const email of client.fetch(searchObject, query))\<close>, threading
  \<open>foundAny\<close> and \<open>results\<close>. A rejection of the stream or of the body leaves the loop.
\<close>

fun forAwait ::
  "(fetchMessage \<Rightarrow> error + 'b nodeExecutionData) \<Rightarrow> stream \<Rightarrow>
   bool \<times> 'b nodeExecutionData list \<Rightarrow> error + bool \<times> 'b nodeExecutionData list" where
  "forAwait body Done (foundAny, results) = Inr (foundAny, results)"
| "forAwait body (Raise e) (foundAny, results) = Inl e"
| "forAwait body (Yield email rest) (foundAny, results) =
     (case body email of
        Inl e \<Rightarrow> Inl e
      | Inr item \<Rightarrow> forAwait body rest (True, results @ [item]))"

definition executeImapAction ::
  "(buffer \<Rightarrow> string) \<Rightarrow> ('s, 'b) executeFunctions \<Rightarrow> nat \<Rightarrow> 's imapFlow \<Rightarrow>
   error + 'b nodeExecutionData list" where
  "executeImapAction toString context itemIndex client =
     (let mailboxPath = getMailboxPathFromNodeParameter context itemIndex in
      case mailboxOpen client mailboxPath True of
        Inl e \<Rightarrow> Inl e
      | Inr opened \<Rightarrow>
          let emailUid = emailUidParameter context itemIndex;
              outputToBinary = getNodeParameter (outputToBinaryParameter context itemIndex) True;
              binaryPropertyName =
                getNodeParameter (binaryPropertyNameParameter context itemIndex) ''data'';
              results = []
          in
          if emailUid \<noteq> [] then
            (case fetchOne opened emailUid query True of
               Inl e \<Rightarrow> Inl e
             | Inr None \<Rightarrow> Inl (Error ''No email found with the specified UID'')
             | Inr (Some emailInfo) \<Rightarrow>
                 (case source emailInfo of
                    None \<Rightarrow> Inl (Error ''No email found with the specified UID'')
                  | Some src \<Rightarrow>
                      if outputToBinary then
                        (case prepareBinaryData context (Some src)
                                (mailboxPath @ ''_'' @ emailUid @ ''.eml'') ''message/rfc822'' of
                           Inl e \<Rightarrow> Inl e
                         | Inr binaryData \<Rightarrow>
                             Inr (results @
                               [\<lparr>json = Map.empty,
                                 binary = Some (Map.empty(binaryPropertyName \<mapsto> binaryData)),
                                 pairedItem = itemIndex\<rparr>]))
                      else
                        Inr (results @
                          [\<lparr>json = Map.empty(''emlContent'' \<mapsto> toString src),
                            binary = None,
                            pairedItem = itemIndex\<rparr>])))
          else
            (let searchObject = getEmailSearchParametersFromNode context itemIndex in
             case forAwait
                    (loopBody toString context itemIndex mailboxPath outputToBinary
                       binaryPropertyName)
                    (fetch opened searchObject query) (False, results) of
               Inl e \<Rightarrow> Inl e
             | Inr (foundAny, results') \<Rightarrow>
                 if \<not> foundAny then Inl (Error ''No emails found matching the search criteria.'')
                 else Inr results'))"

subsection \<open>The original routine\<close>

text \<open>
  \<open>EmailDownload.ts\<close>: always \<open>fetchOne\<close>, no test of what it resolved to. Reading
  \<open>.source\<close> of \<open>false\<close> gives \<open>undefined\<close>.
\<close>

definition executeImapAction_original ::
  "(buffer \<Rightarrow> string) \<Rightarrow> ('s, 'b) executeFunctions \<Rightarrow> nat \<Rightarrow> 's imapFlow \<Rightarrow>
   error + 'b nodeExecutionData list" where
  "executeImapAction_original toString context itemIndex client =
     (let mailboxPath = getMailboxPathFromNodeParameter context itemIndex in
      case mailboxOpen client mailboxPath True of
        Inl e \<Rightarrow> Inl e
      | Inr opened \<Rightarrow>
          let emailUid = emailUidParameter context itemIndex;
              outputToBinary = getNodeParameter (outputToBinaryParameter context itemIndex) True;
              binaryPropertyName =
                getNodeParameter (binaryPropertyNameParameter context itemIndex) ''data''
          in
          (case fetchOne opened emailUid query True of
            Inl e \<Rightarrow> Inl e
          | Inr emailInfo \<Rightarrow>
             (let emailInfo_source = (case emailInfo of None \<Rightarrow> None | Some m \<Rightarrow> source m) in
              if outputToBinary then
                (case prepareBinaryData context emailInfo_source
                        (mailboxPath @ ''_'' @ emailUid @ ''.eml'') ''message/rfc822'' of
                   Inl e \<Rightarrow> Inl e
                 | Inr binaryData \<Rightarrow>
                     Inr [\<lparr>json = Map.empty,
                           binary = Some (Map.empty(binaryPropertyName \<mapsto> binaryData)),
                           pairedItem = itemIndex\<rparr>])
              else
                (case emailInfo_source of
                   None \<Rightarrow>
                     Inl (TypeError ''Cannot read properties of undefined (reading 'toString')'')
                 | Some src \<Rightarrow>
                     Inr [\<lparr>json = Map.empty(''emlContent'' \<mapsto> toString src),
                           binary = None,
                           pairedItem = itemIndex\<rparr>]))))"

subsection \<open>Vocabulary of the statements\<close>

text \<open>The parameters as the routine reads them for one input item.\<close>

definition mailboxPathOf :: "('s, 'b) executeFunctions \<Rightarrow> nat \<Rightarrow> string" where
  "mailboxPathOf context itemIndex = getMailboxPathFromNodeParameter context itemIndex"

definition emailUidOf :: "('s, 'b) executeFunctions \<Rightarrow> nat \<Rightarrow> string" where
  "emailUidOf context itemIndex = emailUidParameter context itemIndex"

definition outputToBinaryOf :: "('s, 'b) executeFunctions \<Rightarrow> nat \<Rightarrow> bool" where
  "outputToBinaryOf context itemIndex =
     getNodeParameter (outputToBinaryParameter context itemIndex) True"

definition binaryPropertyNameOf :: "('s, 'b) executeFunctions \<Rightarrow> nat \<Rightarrow> string" where
  "binaryPropertyNameOf context itemIndex =
     getNodeParameter (binaryPropertyNameParameter context itemIndex) ''data''"

text \<open>The loop body at the parameters of one input item.\<close>

definition itemFor ::
  "(buffer \<Rightarrow> string) \<Rightarrow> ('s, 'b) executeFunctions \<Rightarrow> nat \<Rightarrow> fetchMessage \<Rightarrow>
   error + 'b nodeExecutionData" where
  "itemFor toString context itemIndex =
     loopBody toString context itemIndex (mailboxPathOf context itemIndex)
       (outputToBinaryOf context itemIndex) (binaryPropertyNameOf context itemIndex)"

text \<open>The stream opened by the bulk path for one input item.\<close>

definition searchStream :: "('s, 'b) executeFunctions \<Rightarrow> nat \<Rightarrow> 's selected \<Rightarrow> stream" where
  "searchStream context itemIndex opened =
     fetch opened (getEmailSearchParametersFromNode context itemIndex) query"

text \<open>What \<open>fetchOne\<close> answers on the single-UID path for one input item.\<close>

definition uidFetch ::
  "('s, 'b) executeFunctions \<Rightarrow> nat \<Rightarrow> 's selected \<Rightarrow> error + fetchMessage option" where
  "uidFetch context itemIndex opened =
     fetchOne opened (emailUidParameter context itemIndex) query True"

text \<open>
  A stream read from outside: the messages it delivers, in order, and how it ends.
  \<open>deliver\<close> builds the stream back from the two.
\<close>

fun yielded :: "stream \<Rightarrow> fetchMessage list" where
  "yielded Done = []"
| "yielded (Raise e) = []"
| "yielded (Yield email rest) = email # yielded rest"

fun ending :: "stream \<Rightarrow> error option" where
  "ending Done = None"
| "ending (Raise e) = Some e"
| "ending (Yield email rest) = ending rest"

fun deliver :: "fetchMessage list \<Rightarrow> error option \<Rightarrow> stream" where
  "deliver [] None = Done"
| "deliver [] (Some e) = Raise e"
| "deliver (email # emails) fin = Yield email (deliver emails fin)"

text \<open>Running a fallible function over a list, stopping at the first failure.\<close>

fun collect :: "('a \<Rightarrow> error + 'c) \<Rightarrow> 'a list \<Rightarrow> error + 'c list" where
  "collect f [] = Inr []"
| "collect f (x # xs) =
     (case f x of
        Inl e \<Rightarrow> Inl e
      | Inr y \<Rightarrow> (case collect f xs of Inl e \<Rightarrow> Inl e | Inr ys \<Rightarrow> Inr (y # ys)))"

text \<open>The messages the client hands over during one invocation.\<close>

definition delivered ::
  "('s, 'b) executeFunctions \<Rightarrow> nat \<Rightarrow> 's selected \<Rightarrow> fetchMessage list" where
  "delivered context itemIndex opened =
     (if emailUidOf context itemIndex \<noteq> [] then
        (case uidFetch context itemIndex opened of
           Inr (Some emailInfo) \<Rightarrow> [emailInfo]
         | _ \<Rightarrow> [])
      else yielded (searchStream context itemIndex opened))"

text \<open>
  The identifier that enters the file name: the requested UID string on the single-UID
  path, the decimal UID of the delivered message on the bulk path.
\<close>

definition fileIdOf :: "('s, 'b) executeFunctions \<Rightarrow> nat \<Rightarrow> fetchMessage \<Rightarrow> string" where
  "fileIdOf context itemIndex email =
     (if emailUidOf context itemIndex \<noteq> [] then emailUidOf context itemIndex
      else numberToString (uid email))"

text \<open>The staged data found under a field name in each returned item.\<close>

definition stagedUnder :: "string \<Rightarrow> error + 'b nodeExecutionData list \<Rightarrow> 'b option list" where
  "stagedUnder name outcome =
     (case outcome of
        Inl e \<Rightarrow> []
      | Inr items \<Rightarrow>
          map (\<lambda>item. case binary item of None \<Rightarrow> None | Some binaryFields \<Rightarrow> binaryFields name) items)"

text \<open>The text found under a field name in each returned item.\<close>

definition textUnder :: "string \<Rightarrow> error + 'b nodeExecutionData list \<Rightarrow> string option list" where
  "textUnder name outcome =
     (case outcome of Inl e \<Rightarrow> [] | Inr items \<Rightarrow> map (\<lambda>item. json item name) items)"

text \<open>
  The context with the binary property name of one input item replaced: \<open>None\<close> is the
  unset parameter, \<open>Some name\<close> a supplied name, the empty string included.
\<close>

definition withBinaryPropertyName ::
  "('s, 'b) executeFunctions \<Rightarrow> nat \<Rightarrow> string option \<Rightarrow> ('s, 'b) executeFunctions" where
  "withBinaryPropertyName context itemIndex v =
     context\<lparr>binaryPropertyNameParameter :=
       (binaryPropertyNameParameter context)(itemIndex := v)\<rparr>"

text \<open>The items of binary mode for a list of staged data, all under one name.\<close>

definition stagedItems :: "string \<Rightarrow> nat \<Rightarrow> 'b list \<Rightarrow> 'b nodeExecutionData list" where
  "stagedItems name itemIndex blobs =
     map (\<lambda>binaryData.
            \<lparr>json = Map.empty, binary = Some [name \<mapsto> binaryData], pairedItem = itemIndex\<rparr>)
       blobs"

text \<open>The call of the staging helper that the loop makes for one delivered message.\<close>

definition stagingOf :: "('s, 'b) executeFunctions \<Rightarrow> nat \<Rightarrow> fetchMessage \<Rightarrow> error + 'b" where
  "stagingOf context itemIndex email =
     prepareBinaryData context (source email)
       (mailboxPathOf context itemIndex @ ''_'' @ numberToString (uid email) @ ''.eml'')
       ''message/rfc822''"

subsection \<open>Concrete collaborators\<close>

text \<open>
  A staging helper that records its three arguments, a decoder for ASCII sources, a
  context with the same parameters for every item, and a client that opens every mailbox
  and answers from two given functions.
\<close>

type_synonym staged = "buffer option \<times> string \<times> string"

definition recordingHelper :: "buffer option \<Rightarrow> string \<Rightarrow> string \<Rightarrow> error + staged" where
  "recordingHelper d fileName mimeType = Inr (d, fileName, mimeType)"

definition decodeAscii :: "buffer \<Rightarrow> string" where
  "decodeAscii bytes = bytes"

definition constantly :: "'a \<Rightarrow> 'c \<Rightarrow> 'a" where
  "constantly a x = a"

definition contextOf ::
  "string \<Rightarrow> string \<Rightarrow> bool option \<Rightarrow> string option \<Rightarrow> string \<Rightarrow>
   (string, staged) executeFunctions" where
  "contextOf mailboxPath emailUid outputToBinary binaryPropertyName searchObject =
     \<lparr>getMailboxPathFromNodeParameter = constantly mailboxPath,
      emailUidParameter = constantly emailUid,
      outputToBinaryParameter = constantly outputToBinary,
      binaryPropertyNameParameter = constantly binaryPropertyName,
      getEmailSearchParametersFromNode = constantly searchObject,
      prepareBinaryData = recordingHelper\<rparr>"

definition selectedOf ::
  "(string \<Rightarrow> error + fetchMessage option) \<Rightarrow> (string \<Rightarrow> stream) \<Rightarrow> string selected" where
  "selectedOf one many =
     \<lparr>fetchOne = (\<lambda>seq q byUid. one seq), fetch = (\<lambda>searchObject q. many searchObject)\<rparr>"

definition clientOf ::
  "(string \<Rightarrow> error + fetchMessage option) \<Rightarrow> (string \<Rightarrow> stream) \<Rightarrow> string imapFlow" where
  "clientOf one many = \<lparr>mailboxOpen = (\<lambda>path readOnly. Inr (selectedOf one many))\<rparr>"

definition email5 :: fetchMessage where
  "email5 = \<lparr>uid = 5, source = Some ''Subject: five''\<rparr>"

definition email9 :: fetchMessage where
  "email9 = \<lparr>uid = 9, source = Some ''Subject: nine''\<rparr>"

definition email42 :: fetchMessage where
  "email42 = \<lparr>uid = 42, source = Some ''Subject: forty-two''\<rparr>"

definition sourceless7 :: fetchMessage where
  "sourceless7 = \<lparr>uid = 7, source = None\<rparr>"

text \<open>A search-dependent answer: unseen mail exists, nothing else does.\<close>

definition unseenOnly :: "string \<Rightarrow> stream" where
  "unseenOnly searchObject = (if searchObject = ''UNSEEN'' then Yield email5 Done else Done)"

section \<open>Properties\<close>

subsection \<open>Streams and the loop\<close>

lemma yielded_deliver: "yielded (deliver emails fin) = emails"
  by (induction emails fin rule: deliver.induct) simp_all

lemma ending_deliver: "ending (deliver emails fin) = fin"
  by (induction emails fin rule: deliver.induct) simp_all

lemma deliver_yielded_ending: "deliver (yielded s) (ending s) = s"
  by (induction s) simp_all

text \<open>
  The loop is \<open>collect\<close> over the delivered messages, unless the stream rejects after
  them; \<open>foundAny\<close> ends true exactly when a message was delivered.
\<close>

lemma forAwait_collect:
  "forAwait body s (foundAny, results) =
     (case collect body (yielded s) of
        Inl e \<Rightarrow> Inl e
      | Inr items \<Rightarrow>
          (case ending s of
             Some e \<Rightarrow> Inl e
           | None \<Rightarrow> Inr (foundAny \<or> yielded s \<noteq> [], results @ items)))"
proof (induction s arbitrary: foundAny results)
  case Done
  show ?case by simp
next
  case (Yield email rest)
  show ?case
  proof (cases "body email")
    case (Inl e)
    then show ?thesis by simp
  next
    case (Inr item)
    then show ?thesis
      by (simp add: Yield.IH split: sum.split option.split)
  qed
next
  case (Raise e)
  show ?case by simp
qed

lemma collect_Inr_all2:
  "collect f xs = Inr ys \<Longrightarrow> list_all2 (\<lambda>x y. f x = Inr y) xs ys"
  by (induction xs arbitrary: ys) (auto split: sum.splits)

lemma collect_total:
  "\<forall>x \<in> set xs. \<exists>y. f x = Inr y \<Longrightarrow> \<exists>ys. collect f xs = Inr ys"
  by (induction xs) (auto split: sum.splits)

lemma collect_length: "collect f xs = Inr ys \<Longrightarrow> length ys = length xs"
  by (drule collect_Inr_all2) (simp add: list_all2_lengthD)

lemma all2_set_right:
  "list_all2 P xs ys \<Longrightarrow> y \<in> set ys \<Longrightarrow> \<exists>x \<in> set xs. P x y"
  by (induction rule: list_all2_induct) auto

subsection \<open>The three ways through the routine\<close>

lemma executeImapAction_closed:
  "mailboxOpen client (mailboxPathOf context itemIndex) True = Inl e \<Longrightarrow>
   executeImapAction toString context itemIndex client = Inl e"
  by (simp add: executeImapAction_def mailboxPathOf_def)

lemma executeImapAction_bulk:
  assumes "emailUidOf context itemIndex = []"
    and "mailboxOpen client (mailboxPathOf context itemIndex) True = Inr opened"
  shows "executeImapAction toString context itemIndex client =
     (case collect (itemFor toString context itemIndex)
             (yielded (searchStream context itemIndex opened)) of
        Inl e \<Rightarrow> Inl e
      | Inr items \<Rightarrow>
          (case ending (searchStream context itemIndex opened) of
             Some e \<Rightarrow> Inl e
           | None \<Rightarrow>
               if yielded (searchStream context itemIndex opened) = []
               then Inl (Error ''No emails found matching the search criteria.'')
               else Inr items))"
  using assms
  by (simp add: executeImapAction_def mailboxPathOf_def emailUidOf_def itemFor_def
      searchStream_def outputToBinaryOf_def binaryPropertyNameOf_def forAwait_collect
      split: sum.split option.split)

lemma executeImapAction_single:
  assumes "emailUidOf context itemIndex \<noteq> []"
    and "mailboxOpen client (mailboxPathOf context itemIndex) True = Inr opened"
  shows "executeImapAction toString context itemIndex client =
     (case uidFetch context itemIndex opened of
        Inl e \<Rightarrow> Inl e
      | Inr None \<Rightarrow> Inl (Error ''No email found with the specified UID'')
      | Inr (Some emailInfo) \<Rightarrow>
          (case source emailInfo of
             None \<Rightarrow> Inl (Error ''No email found with the specified UID'')
           | Some src \<Rightarrow>
               if outputToBinaryOf context itemIndex then
                 (case prepareBinaryData context (Some src)
                         (mailboxPathOf context itemIndex @ ''_'' @ emailUidOf context itemIndex
                            @ ''.eml'') ''message/rfc822'' of
                    Inl e \<Rightarrow> Inl e
                  | Inr binaryData \<Rightarrow>
                      Inr [\<lparr>json = Map.empty,
                            binary = Some (Map.empty(binaryPropertyNameOf context itemIndex
                                       \<mapsto> binaryData)),
                            pairedItem = itemIndex\<rparr>])
               else
                 Inr [\<lparr>json = Map.empty(''emlContent'' \<mapsto> toString src),
                       binary = None,
                       pairedItem = itemIndex\<rparr>]))"
  using assms
  by (simp add: executeImapAction_def mailboxPathOf_def emailUidOf_def uidFetch_def
      outputToBinaryOf_def binaryPropertyNameOf_def
      split: sum.split option.split)

subsection \<open>The loop body\<close>

lemma itemFor_pairedItem:
  "itemFor toString context itemIndex email = Inr item \<Longrightarrow> pairedItem item = itemIndex"
  by (auto simp: itemFor_def loopBody_def split: if_splits sum.splits option.splits)

lemma itemFor_total_iff:
  "(\<exists>item. itemFor toString context itemIndex email = Inr item) \<longleftrightarrow>
   (if outputToBinaryOf context itemIndex
    then \<exists>binaryData. prepareBinaryData context (source email)
           (mailboxPathOf context itemIndex @ ''_'' @ numberToString (uid email) @ ''.eml'')
           ''message/rfc822'' = Inr binaryData
    else source email \<noteq> None)"
  by (auto simp: itemFor_def loopBody_def split: if_splits sum.splits option.splits)

subsection \<open>Evaluating the concrete collaborators\<close>

lemma numberToString_examples:
  "numberToString 5 = ''5''" "numberToString 9 = ''9''" "numberToString 7 = ''7''"
  by code_simp+

lemma concrete_parameters:
  "mailboxPathOf (contextOf m u ob n so) i = m"
  "emailUidOf (contextOf m u ob n so) i = u"
  "outputToBinaryOf (contextOf m u ob n so) i = getNodeParameter ob True"
  "binaryPropertyNameOf (contextOf m u ob n so) i = getNodeParameter n ''data''"
  "prepareBinaryData (contextOf m u ob n so) = recordingHelper"
  by (simp_all add: mailboxPathOf_def emailUidOf_def outputToBinaryOf_def
      binaryPropertyNameOf_def contextOf_def constantly_def)

lemma concrete_client:
  "mailboxOpen (clientOf one many) path readOnly = Inr (selectedOf one many)"
  "uidFetch (contextOf m u ob n so) i (selectedOf one many) = one u"
  "searchStream (contextOf m u ob n so) i (selectedOf one many) = many so"
  by (simp_all add: clientOf_def selectedOf_def uidFetch_def searchStream_def contextOf_def
      constantly_def)

subsection \<open>What an item of the loop holds\<close>

lemma itemFor_binary:
  assumes "itemFor toString context itemIndex email = Inr item"
    and "outputToBinaryOf context itemIndex"
  shows "\<exists>binaryData.
           prepareBinaryData context (source email)
             (mailboxPathOf context itemIndex @ ''_'' @ numberToString (uid email) @ ''.eml'')
             ''message/rfc822'' = Inr binaryData \<and>
           json item = Map.empty \<and>
           binary item = Some [binaryPropertyNameOf context itemIndex \<mapsto> binaryData]"
  using assms
  by (auto simp: itemFor_def loopBody_def split: sum.splits)

lemma itemFor_text:
  assumes "itemFor toString context itemIndex email = Inr item"
    and "\<not> outputToBinaryOf context itemIndex"
  shows "\<exists>src. source email = Some src \<and>
           json item = [''emlContent'' \<mapsto> toString src] \<and> binary item = None"
  using assms
  by (auto simp: itemFor_def loopBody_def split: option.splits)

text \<open>Every item the bulk path returns is the loop body's item for a delivered message.\<close>

lemma bulk_items_from_messages:
  assumes uid: "emailUidOf context itemIndex = []"
    and opn: "mailboxOpen client (mailboxPathOf context itemIndex) True = Inr opened"
    and res: "executeImapAction toString context itemIndex client = Inr items"
    and mem: "item \<in> set items"
  shows "\<exists>email \<in> set (delivered context itemIndex opened).
           itemFor toString context itemIndex email = Inr item"
proof -
  from res have "collect (itemFor toString context itemIndex)
                   (yielded (searchStream context itemIndex opened)) = Inr items"
    by (auto simp: executeImapAction_bulk [OF uid opn]
        split: sum.splits option.splits if_splits)
  then have "list_all2 (\<lambda>email item. itemFor toString context itemIndex email = Inr item)
               (yielded (searchStream context itemIndex opened)) items"
    by (rule collect_Inr_all2)
  from all2_set_right [OF this mem] show ?thesis
    by (simp add: delivered_def uid)
qed

subsection \<open>The single-UID path, case by case\<close>

lemma single_returns_one:
  assumes uid: "emailUidOf context itemIndex \<noteq> []"
    and res: "executeImapAction toString context itemIndex client = Inr items"
  shows "length items = 1"
proof (cases "mailboxOpen client (mailboxPathOf context itemIndex) True")
  case (Inl e)
  with res show ?thesis by (simp add: executeImapAction_closed)
next
  case (Inr opened)
  from res show ?thesis
    by (auto simp: executeImapAction_single [OF uid Inr]
        split: sum.splits option.splits if_splits)
qed

lemma single_rejected:
  assumes "emailUidOf context itemIndex \<noteq> []"
    and "mailboxOpen client (mailboxPathOf context itemIndex) True = Inr opened"
    and "uidFetch context itemIndex opened = Inl e"
  shows "executeImapAction toString context itemIndex client = Inl e"
  using assms by (simp add: executeImapAction_single)

lemma single_no_message:
  assumes "emailUidOf context itemIndex \<noteq> []"
    and "mailboxOpen client (mailboxPathOf context itemIndex) True = Inr opened"
    and "uidFetch context itemIndex opened = Inr None"
  shows "executeImapAction toString context itemIndex client =
           Inl (Error ''No email found with the specified UID'')"
  using assms by (simp add: executeImapAction_single)

lemma single_no_source:
  assumes "emailUidOf context itemIndex \<noteq> []"
    and "mailboxOpen client (mailboxPathOf context itemIndex) True = Inr opened"
    and "uidFetch context itemIndex opened = Inr (Some emailInfo)"
    and "source emailInfo = None"
  shows "executeImapAction toString context itemIndex client =
           Inl (Error ''No email found with the specified UID'')"
  using assms by (simp add: executeImapAction_single)

lemma single_with_source:
  assumes "emailUidOf context itemIndex \<noteq> []"
    and "mailboxOpen client (mailboxPathOf context itemIndex) True = Inr opened"
    and "uidFetch context itemIndex opened = Inr (Some emailInfo)"
    and "source emailInfo = Some src"
  shows "(\<exists>item. executeImapAction toString context itemIndex client = Inr [item]) \<or>
         (\<exists>e. outputToBinaryOf context itemIndex \<and>
              prepareBinaryData context (Some src)
                (mailboxPathOf context itemIndex @ ''_'' @ emailUidOf context itemIndex @ ''.eml'')
                ''message/rfc822'' = Inl e \<and>
              executeImapAction toString context itemIndex client = Inl e)"
  using assms by (auto simp: executeImapAction_single split: sum.splits)

lemma single_only_the_answer:
  assumes "emailUidOf context itemIndex \<noteq> []"
    and "mailboxOpen client (mailboxPathOf context itemIndex) True = Inr opened"
    and "mailboxOpen client' (mailboxPathOf context itemIndex) True = Inr opened'"
    and "uidFetch context itemIndex opened' = uidFetch context itemIndex opened"
  shows "executeImapAction toString context itemIndex client' =
           executeImapAction toString context itemIndex client"
  using assms by (simp add: executeImapAction_single)

subsection \<open>Reads that an update of the search parameters leaves alone\<close>

lemma search_update_reads:
  "mailboxPathOf (context\<lparr>getEmailSearchParametersFromNode := search\<rparr>) itemIndex =
     mailboxPathOf context itemIndex"
  "emailUidOf (context\<lparr>getEmailSearchParametersFromNode := search\<rparr>) itemIndex =
     emailUidOf context itemIndex"
  "outputToBinaryOf (context\<lparr>getEmailSearchParametersFromNode := search\<rparr>) itemIndex =
     outputToBinaryOf context itemIndex"
  "binaryPropertyNameOf (context\<lparr>getEmailSearchParametersFromNode := search\<rparr>) itemIndex =
     binaryPropertyNameOf context itemIndex"
  "uidFetch (context\<lparr>getEmailSearchParametersFromNode := search\<rparr>) itemIndex opened =
     uidFetch context itemIndex opened"
  by (simp_all add: mailboxPathOf_def emailUidOf_def outputToBinaryOf_def
      binaryPropertyNameOf_def uidFetch_def)

subsection \<open>Three runs on the concrete collaborators\<close>

lemma single_binary_example:
  "executeImapAction decodeAscii (contextOf ''INBOX'' ''42'' (Some True) (Some ''data'') ''ALL'') 0
     (clientOf (constantly (Inr (Some email42))) (constantly Done))
   = Inr [\<lparr>json = Map.empty,
           binary = Some [''data'' \<mapsto> (Some ''Subject: forty-two'', ''INBOX_42.eml'', ''message/rfc822'')],
           pairedItem = 0\<rparr>]"
  by (simp add: executeImapAction_def contextOf_def clientOf_def selectedOf_def constantly_def
      getNodeParameter_def email42_def recordingHelper_def)

lemma bulk_text_example:
  "executeImapAction decodeAscii (contextOf ''INBOX'' [] (Some False) None ''ALL'') 0
     (clientOf (constantly (Inr None)) (constantly (Yield email5 (Yield email9 Done))))
   = Inr [\<lparr>json = [''emlContent'' \<mapsto> ''Subject: five''], binary = None, pairedItem = 0\<rparr>,
          \<lparr>json = [''emlContent'' \<mapsto> ''Subject: nine''], binary = None, pairedItem = 0\<rparr>]"
  by (simp add: executeImapAction_def contextOf_def clientOf_def selectedOf_def constantly_def
      getNodeParameter_def loopBody_def email5_def email9_def decodeAscii_def)

lemma bulk_binary_example:
  "executeImapAction decodeAscii (contextOf ''INBOX'' [] None (Some ''data'') ''ALL'') 0
     (clientOf (constantly (Inr None)) (constantly (Yield email5 (Yield email9 Done))))
   = Inr [\<lparr>json = Map.empty,
           binary = Some [''data'' \<mapsto> (Some ''Subject: five'', ''INBOX_5.eml'', ''message/rfc822'')],
           pairedItem = 0\<rparr>,
          \<lparr>json = Map.empty,
           binary = Some [''data'' \<mapsto> (Some ''Subject: nine'', ''INBOX_9.eml'', ''message/rfc822'')],
           pairedItem = 0\<rparr>]"
  by (simp add: executeImapAction_def contextOf_def clientOf_def selectedOf_def constantly_def
      getNodeParameter_def loopBody_def email5_def email9_def recordingHelper_def
      numberToString_examples Let_def)

subsection \<open>The bulk path on messages the loop body accepts\<close>

text \<open>
  When the mailbox opens and the stream delivers \<open>emails\<close>, at least one, and ends
  normally, and the loop body succeeds on each of them (in text mode the message carries
  a source; in binary mode the helper resolves), the routine returns as many items as
  messages, the k-th item being the loop body's item for the k-th message, each paired to
  \<open>itemIndex\<close>. By \<open>deliver_yielded_ending\<close> every stream that ends normally is
  \<open>deliver emails None\<close> for the messages it delivers.
\<close>

lemma bulk_one_item_per_message:
  assumes uid: "emailUidOf context itemIndex = []"
    and opn: "mailboxOpen client (mailboxPathOf context itemIndex) True = Inr opened"
    and str: "searchStream context itemIndex opened = deliver emails None"
    and some: "emails \<noteq> []"
    and shaped: "\<forall>email \<in> set emails.
        if outputToBinaryOf context itemIndex
        then \<exists>binaryData. prepareBinaryData context (source email)
               (mailboxPathOf context itemIndex @ ''_'' @ numberToString (uid email) @ ''.eml'')
               ''message/rfc822'' = Inr binaryData
        else source email \<noteq> None"
  shows "\<exists>items. executeImapAction toString context itemIndex client = Inr items \<and>
           length items = length emails \<and>
           list_all2 (\<lambda>email item. itemFor toString context itemIndex email = Inr item)
             emails items \<and>
           (\<forall>item \<in> set items. pairedItem item = itemIndex)"
proof -
  from shaped have "\<forall>email \<in> set emails. \<exists>item. itemFor toString context itemIndex email = Inr item"
    by (simp only: itemFor_total_iff)
  then obtain items where c: "collect (itemFor toString context itemIndex) emails = Inr items"
    using collect_total by blast
  have all2: "list_all2 (\<lambda>email item. itemFor toString context itemIndex email = Inr item)
                emails items"
    using c by (rule collect_Inr_all2)
  have res: "executeImapAction toString context itemIndex client = Inr items"
    using some c by (simp add: executeImapAction_bulk [OF uid opn] str yielded_deliver ending_deliver)
  have len: "length items = length emails"
    using all2 by (simp add: list_all2_lengthD)
  have paired: "\<forall>item \<in> set items. pairedItem item = itemIndex"
    using all2 by (blast dest: all2_set_right itemFor_pairedItem)
  from res len all2 paired show ?thesis by blast
qed

text \<open>UIDs 5 and 9 in text mode: two items in fetch order, each with its decoded source.\<close>

lemma bulk_two_messages_in_order:
  "emailUidOf (contextOf ''INBOX'' [] (Some False) None ''ALL'') 0 = [] \<and>
   textUnder ''emlContent''
     (executeImapAction decodeAscii (contextOf ''INBOX'' [] (Some False) None ''ALL'') 0
        (clientOf (constantly (Inr None)) (constantly (deliver [email5, email9] None))))
   = [Some ''Subject: five'', Some ''Subject: nine'']"
proof -
  let ?ctx = "contextOf ''INBOX'' [] (Some False) None ''ALL''"
  let ?many = "constantly (deliver [email5, email9] None) :: string \<Rightarrow> stream"
  let ?one = "constantly (Inr None) :: string \<Rightarrow> error + fetchMessage option"
  have h1: "emailUidOf ?ctx 0 = []"
    by (simp add: concrete_parameters)
  have h2: "mailboxOpen (clientOf ?one ?many) (mailboxPathOf ?ctx 0) True = Inr (selectedOf ?one ?many)"
    by (simp add: concrete_client)
  have h3: "searchStream ?ctx 0 (selectedOf ?one ?many) = deliver [email5, email9] None"
    by (simp add: concrete_client constantly_def)
  have h4: "[email5, email9] \<noteq> []" by simp
  have h5: "\<forall>email \<in> set [email5, email9].
        if outputToBinaryOf ?ctx 0
        then \<exists>binaryData. prepareBinaryData ?ctx (source email)
               (mailboxPathOf ?ctx 0 @ ''_'' @ numberToString (uid email) @ ''.eml'')
               ''message/rfc822'' = Inr binaryData
        else source email \<noteq> None"
    by (simp add: concrete_parameters getNodeParameter_def email5_def email9_def)
  from bulk_one_item_per_message [OF h1 h2 h3 h4 h5, of decodeAscii]
  obtain items where r: "executeImapAction decodeAscii ?ctx 0 (clientOf ?one ?many) = Inr items"
    and a: "list_all2 (\<lambda>email item. itemFor decodeAscii ?ctx 0 email = Inr item)
             [email5, email9] items"
    by blast
  from a obtain i5 i9 where items: "items = [i5, i9]"
    and "itemFor decodeAscii ?ctx 0 email5 = Inr i5" "itemFor decodeAscii ?ctx 0 email9 = Inr i9"
    by (auto simp: list_all2_Cons1)
  then have "json i5 ''emlContent'' = Some ''Subject: five''"
    "json i9 ''emlContent'' = Some ''Subject: nine''"
    by (auto simp: itemFor_def loopBody_def concrete_parameters getNodeParameter_def
        email5_def email9_def decodeAscii_def)
  with r items h1 show ?thesis by (simp add: textUnder_def)
qed

subsection \<open>The binary property name, whatever it is\<close>

lemma name_update_reads:
  "mailboxPathOf (withBinaryPropertyName context itemIndex v) itemIndex =
     mailboxPathOf context itemIndex"
  "emailUidOf (withBinaryPropertyName context itemIndex v) itemIndex =
     emailUidOf context itemIndex"
  "outputToBinaryOf (withBinaryPropertyName context itemIndex v) itemIndex =
     outputToBinaryOf context itemIndex"
  "binaryPropertyNameOf (withBinaryPropertyName context itemIndex v) itemIndex =
     getNodeParameter v ''data''"
  "prepareBinaryData (withBinaryPropertyName context itemIndex v) = prepareBinaryData context"
  "uidFetch (withBinaryPropertyName context itemIndex v) itemIndex opened =
     uidFetch context itemIndex opened"
  "searchStream (withBinaryPropertyName context itemIndex v) itemIndex opened =
     searchStream context itemIndex opened"
  by (simp_all add: withBinaryPropertyName_def mailboxPathOf_def emailUidOf_def
      outputToBinaryOf_def binaryPropertyNameOf_def uidFetch_def searchStream_def)

lemma itemFor_named_binary:
  assumes "outputToBinaryOf context itemIndex"
  shows "itemFor toString (withBinaryPropertyName context itemIndex v) itemIndex email =
     (case stagingOf context itemIndex email of
        Inl e \<Rightarrow> Inl e
      | Inr binaryData \<Rightarrow>
          Inr \<lparr>json = Map.empty, binary = Some [getNodeParameter v ''data'' \<mapsto> binaryData],
               pairedItem = itemIndex\<rparr>)"
  using assms
  by (simp add: itemFor_def loopBody_def name_update_reads stagingOf_def split: sum.split)

lemma collect_through:
  assumes "\<And>x. f x = (case g x of Inl e \<Rightarrow> Inl e | Inr y \<Rightarrow> Inr (h y))"
  shows "collect f xs = (case collect g xs of Inl e \<Rightarrow> Inl e | Inr ys \<Rightarrow> Inr (map h ys))"
  by (induction xs) (simp_all add: assms split: sum.split)

lemma collect_named_binary:
  assumes "outputToBinaryOf context itemIndex"
  shows "collect (itemFor toString (withBinaryPropertyName context itemIndex v) itemIndex) emails =
     (case collect (stagingOf context itemIndex) emails of
        Inl e \<Rightarrow> Inl e
      | Inr blobs \<Rightarrow> Inr (stagedItems (getNodeParameter v ''data'') itemIndex blobs))"
  unfolding stagedItems_def
  by (rule collect_through) (rule itemFor_named_binary [OF assms])

lemma itemFor_named_text:
  assumes "\<not> outputToBinaryOf context itemIndex"
  shows "itemFor toString (withBinaryPropertyName context itemIndex v) itemIndex =
         itemFor toString context itemIndex"
  using assms
  by (simp add: itemFor_def loopBody_def name_update_reads fun_eq_iff)

lemma named_text_outcome:
  assumes txtmode: "\<not> outputToBinaryOf context itemIndex"
  shows "executeImapAction toString (withBinaryPropertyName context itemIndex v) itemIndex client =
         executeImapAction toString context itemIndex client"
proof (cases "mailboxOpen client (mailboxPathOf context itemIndex) True")
  case (Inl e)
  then show ?thesis
    by (simp add: executeImapAction_closed name_update_reads)
next
  case (Inr opened)
  show ?thesis
  proof (cases "emailUidOf context itemIndex = []")
    case True
    from executeImapAction_bulk [of "withBinaryPropertyName context itemIndex v" itemIndex
        client opened toString, unfolded name_update_reads, OF True Inr]
    show ?thesis
      by (simp add: itemFor_named_text [OF txtmode] executeImapAction_bulk [OF True Inr])
  next
    case False
    from executeImapAction_single [of "withBinaryPropertyName context itemIndex v" itemIndex
        client opened toString, unfolded name_update_reads, OF False Inr] txtmode
    show ?thesis
      by (simp add: executeImapAction_single [OF False Inr] split: sum.split option.split)
  qed
qed

lemma named_binary_outcome:
  assumes bin: "outputToBinaryOf context itemIndex"
  shows "\<exists>outcome. \<forall>v.
     executeImapAction toString (withBinaryPropertyName context itemIndex v) itemIndex client =
       (case outcome of
          Inl e \<Rightarrow> Inl e
        | Inr blobs \<Rightarrow> Inr (stagedItems (getNodeParameter v ''data'') itemIndex blobs))"
proof (cases "mailboxOpen client (mailboxPathOf context itemIndex) True")
  case (Inl e)
  show ?thesis
    by (rule exI [of _ "Inl e"]) (simp add: Inl executeImapAction_closed name_update_reads)
next
  case (Inr opened)
  show ?thesis
  proof (cases "emailUidOf context itemIndex = []")
    case True
    note bulk = executeImapAction_bulk [of "withBinaryPropertyName context itemIndex v" itemIndex
        client opened toString for v, unfolded name_update_reads, OF True Inr]
    let ?S = "searchStream context itemIndex opened"
    show ?thesis
      by (rule exI [of _ "case collect (stagingOf context itemIndex) (yielded ?S) of
                        Inl e \<Rightarrow> Inl e
                      | Inr blobs \<Rightarrow>
                          (case ending ?S of
                             Some e \<Rightarrow> Inl e
                           | None \<Rightarrow>
                               if yielded ?S = []
                               then Inl (Error ''No emails found matching the search criteria.'')
                               else Inr blobs)"])
        (simp add: bulk collect_named_binary [OF bin] split: sum.split option.split)
  next
    case False
    note single = executeImapAction_single [of "withBinaryPropertyName context itemIndex v"
        itemIndex client opened toString for v, unfolded name_update_reads, OF False Inr]
    show ?thesis
      by (rule exI [of _ "case uidFetch context itemIndex opened of
          Inl e \<Rightarrow> Inl e
        | Inr None \<Rightarrow> Inl (Error ''No email found with the specified UID'')
        | Inr (Some emailInfo) \<Rightarrow>
            (case source emailInfo of
               None \<Rightarrow> Inl (Error ''No email found with the specified UID'')
             | Some src \<Rightarrow>
                 (case prepareBinaryData context (Some src)
                         (mailboxPathOf context itemIndex @ ''_'' @ emailUidOf context itemIndex
                            @ ''.eml'') ''message/rfc822'' of
                    Inl e \<Rightarrow> Inl e
                  | Inr binaryData \<Rightarrow> Inr [binaryData]))"])
        (simp add: single bin stagedItems_def split: sum.split option.split)
  qed
qed

section \<open>The claims\<close>

subsection \<open>C1: one item per delivered message\<close>

text \<open>
  C1: on the bulk path a stream of N messages, N at least one, gives N items in fetch
  order, each paired to the input item. The routine departs from this at a delivered
  message that has no source. With an empty \<open>emailUid\<close> in text mode, a stream that
  delivers one such message and ends normally makes \<open>email.source.toString()\<close> raise a
  \<open>TypeError\<close>, and no item is returned. Asked for the same message by UID, the routine
  tests \<open>!emailInfo.source\<close> and fails with its not-found error. In binary mode the
  loop hands the \<open>undefined\<close> source to the staging helper.
\<close>

theorem bulk_sourceless_message_raises:
  "emailUidOf (contextOf ''INBOX'' [] (Some False) None ''ALL'') 0 = [] \<and>
   yielded (searchStream (contextOf ''INBOX'' [] (Some False) None ''ALL'') 0
      (selectedOf (constantly (Inr None)) (constantly (Yield sourceless7 Done)))) = [sourceless7]
   \<and> ending (searchStream (contextOf ''INBOX'' [] (Some False) None ''ALL'') 0
      (selectedOf (constantly (Inr None)) (constantly (Yield sourceless7 Done)))) = None
   \<and> executeImapAction decodeAscii (contextOf ''INBOX'' [] (Some False) None ''ALL'') 0
        (clientOf (constantly (Inr None)) (constantly (Yield sourceless7 Done)))
      = Inl (TypeError ''Cannot read properties of undefined (reading 'toString')'')
   \<and> executeImapAction decodeAscii (contextOf ''INBOX'' ''7'' (Some False) None ''ALL'') 0
        (clientOf (constantly (Inr (Some sourceless7))) (constantly Done))
      = Inl (Error ''No email found with the specified UID'')
   \<and> stagedUnder ''data''
        (executeImapAction decodeAscii (contextOf ''INBOX'' [] (Some True) None ''ALL'') 0
           (clientOf (constantly (Inr None)) (constantly (Yield sourceless7 Done))))
      = [Some (None, ''INBOX_7.eml'', ''message/rfc822'')]"
  by (simp add: executeImapAction_def contextOf_def clientOf_def selectedOf_def constantly_def
      getNodeParameter_def loopBody_def sourceless7_def searchStream_def emailUidOf_def
      stagedUnder_def recordingHelper_def numberToString_examples)

subsection \<open>C2: the single-UID path\<close>

text \<open>
  C2. With a non-empty \<open>emailUid\<close> the routine asks the client once, \<open>fetchOne\<close> at that
  identifier, and its outcome depends on the client only through that answer. A returned
  list has exactly one item. When the answer is \<open>false\<close> or a message without source the
  routine fails with \<open>new Error('No email found with the specified UID')\<close>, the
  specification's \<open>NotFoundError\<close>. It raises no other error of its own: every other
  failure is a rejection of \<open>mailboxOpen\<close>, of \<open>fetchOne\<close> or of the staging helper,
  passed on unchanged.
\<close>

theorem single_uid_one_fetch:
  assumes uid: "emailUidOf context itemIndex \<noteq> []"
  shows "(\<forall>items. executeImapAction toString context itemIndex client = Inr items \<longrightarrow>
             length items = 1) \<and>
         (\<forall>e. mailboxOpen client (mailboxPathOf context itemIndex) True = Inl e \<longrightarrow>
             executeImapAction toString context itemIndex client = Inl e) \<and>
         (\<forall>opened. mailboxOpen client (mailboxPathOf context itemIndex) True = Inr opened \<longrightarrow>
            (\<forall>e. uidFetch context itemIndex opened = Inl e \<longrightarrow>
               executeImapAction toString context itemIndex client = Inl e) \<and>
            (uidFetch context itemIndex opened = Inr None \<longrightarrow>
               executeImapAction toString context itemIndex client =
                 Inl (Error ''No email found with the specified UID'')) \<and>
            (\<forall>emailInfo. uidFetch context itemIndex opened = Inr (Some emailInfo) \<and>
                 source emailInfo = None \<longrightarrow>
               executeImapAction toString context itemIndex client =
                 Inl (Error ''No email found with the specified UID'')) \<and>
            (\<forall>emailInfo src. uidFetch context itemIndex opened = Inr (Some emailInfo) \<and>
                 source emailInfo = Some src \<longrightarrow>
               (\<exists>item. executeImapAction toString context itemIndex client = Inr [item]) \<or>
               (\<exists>e. outputToBinaryOf context itemIndex \<and>
                    prepareBinaryData context (Some src)
                      (mailboxPathOf context itemIndex @ ''_'' @ emailUidOf context itemIndex
                         @ ''.eml'') ''message/rfc822'' = Inl e \<and>
                    executeImapAction toString context itemIndex client = Inl e)) \<and>
            (\<forall>client' opened'.
               mailboxOpen client' (mailboxPathOf context itemIndex) True = Inr opened' \<and>
               uidFetch context itemIndex opened' = uidFetch context itemIndex opened \<longrightarrow>
               executeImapAction toString context itemIndex client' =
                 executeImapAction toString context itemIndex client))"
proof (intro conjI allI impI, goal_cases)
  case (1 items)
  then show ?case by (rule single_returns_one [OF uid])
next
  case (2 e)
  then show ?case by (rule executeImapAction_closed)
next
  case (3 opened e)
  then show ?case by (rule single_rejected [OF uid])
next
  case (4 opened)
  then show ?case by (rule single_no_message [OF uid])
next
  case (5 opened emailInfo)
  then show ?case by (blast intro: single_no_source [OF uid])
next
  case (6 opened emailInfo src)
  then have "uidFetch context itemIndex opened = Inr (Some emailInfo)"
    and "source emailInfo = Some src"
    by simp_all
  with 6(1) show ?case by (rule single_with_source [OF uid])
next
  case (7 opened client' opened')
  then show ?case by (blast intro: single_only_the_answer [OF uid])
qed

theorem single_uid_one_fetch_witness:
  "emailUidOf (contextOf ''INBOX'' ''42'' (Some True) (Some ''data'') ''ALL'') 0 \<noteq> [] \<and>
   uidFetch (contextOf ''INBOX'' ''42'' (Some True) (Some ''data'') ''ALL'') 0
     (selectedOf (constantly (Inr None)) (constantly Done)) = Inr None \<and>
   executeImapAction decodeAscii (contextOf ''INBOX'' ''42'' (Some True) (Some ''data'') ''ALL'') 0
     (clientOf (constantly (Inr None)) (constantly Done))
   = Inl (Error ''No email found with the specified UID'')"
proof -
  let ?ctx = "contextOf ''INBOX'' ''42'' (Some True) (Some ''data'') ''ALL''"
  let ?one = "constantly (Inr None) :: string \<Rightarrow> error + fetchMessage option"
  let ?many = "constantly Done :: string \<Rightarrow> stream"
  have h1: "emailUidOf ?ctx 0 \<noteq> []"
    by (simp add: concrete_parameters)
  have h2: "mailboxOpen (clientOf ?one ?many) (mailboxPathOf ?ctx 0) True
              = Inr (selectedOf ?one ?many)"
    by (simp add: concrete_client)
  have h3: "uidFetch ?ctx 0 (selectedOf ?one ?many) = Inr None"
    by (simp add: concrete_client constantly_def)
  from single_uid_one_fetch [OF h1, of decodeAscii "clientOf ?one ?many"] h2 h3
  have "executeImapAction decodeAscii ?ctx 0 (clientOf ?one ?many)
          = Inl (Error ''No email found with the specified UID'')"
    by blast
  with h1 h3 show ?thesis by simp
qed

subsection \<open>C3: an empty search fails\<close>

text \<open>
  C3. On the bulk path, when the mailbox opens and the stream ends without delivering a
  message, the routine fails with
  \<open>new Error('No emails found matching the search criteria.')\<close>, the specification's
  \<open>NotFoundError\<close>; it does not return an empty list.
\<close>

theorem bulk_empty_search_fails:
  assumes uid: "emailUidOf context itemIndex = []"
    and opn: "mailboxOpen client (mailboxPathOf context itemIndex) True = Inr opened"
    and str: "searchStream context itemIndex opened = Done"
  shows "executeImapAction toString context itemIndex client =
           Inl (Error ''No emails found matching the search criteria.'')"
  by (simp add: executeImapAction_bulk [OF uid opn] str)

theorem bulk_empty_search_fails_witness:
  "emailUidOf (contextOf ''INBOX'' [] (Some False) None ''ALL'') 0 = [] \<and>
   searchStream (contextOf ''INBOX'' [] (Some False) None ''ALL'') 0
     (selectedOf (constantly (Inr None)) (constantly Done)) = Done \<and>
   executeImapAction decodeAscii (contextOf ''INBOX'' [] (Some False) None ''ALL'') 0
     (clientOf (constantly (Inr None)) (constantly Done))
   = Inl (Error ''No emails found matching the search criteria.'')"
proof -
  let ?ctx = "contextOf ''INBOX'' [] (Some False) None ''ALL''"
  let ?one = "constantly (Inr None) :: string \<Rightarrow> error + fetchMessage option"
  let ?many = "constantly Done :: string \<Rightarrow> stream"
  have h1: "emailUidOf ?ctx 0 = []"
    by (simp add: concrete_parameters)
  have h2: "mailboxOpen (clientOf ?one ?many) (mailboxPathOf ?ctx 0) True
              = Inr (selectedOf ?one ?many)"
    by (simp add: concrete_client)
  have h3: "searchStream ?ctx 0 (selectedOf ?one ?many) = Done"
    by (simp add: concrete_client constantly_def)
  from h1 h3 bulk_empty_search_fails [OF h1 h2 h3, of decodeAscii] show ?thesis
    by simp
qed

subsection \<open>C4: one payload area per item\<close>

text \<open>
  C4. Every item of a returned list, on either path: in binary mode its \<open>json\<close> is the
  empty object and its \<open>binary\<close> holds one entry, under the configured property name; in
  text mode its \<open>binary\<close> is \<open>undefined\<close> and its \<open>json\<close> holds one entry,
  \<open>emlContent\<close>, the decoded source of a message the client delivered.
\<close>

theorem one_payload_area:
  assumes res: "executeImapAction toString context itemIndex client = Inr items"
    and mem: "item \<in> set items"
  shows "if outputToBinaryOf context itemIndex
         then json item = Map.empty \<and>
              (\<exists>binaryData. binary item =
                 Some [binaryPropertyNameOf context itemIndex \<mapsto> binaryData])
         else binary item = None \<and>
              (\<exists>opened email src.
                 mailboxOpen client (mailboxPathOf context itemIndex) True = Inr opened \<and>
                 email \<in> set (delivered context itemIndex opened) \<and>
                 source email = Some src \<and>
                 json item = [''emlContent'' \<mapsto> toString src])"
proof (cases "mailboxOpen client (mailboxPathOf context itemIndex) True")
  case (Inl e)
  with res show ?thesis by (simp add: executeImapAction_closed)
next
  case (Inr opened)
  show ?thesis
  proof (cases "emailUidOf context itemIndex = []")
    case True
    from bulk_items_from_messages [OF True Inr res mem]
    obtain email where e: "email \<in> set (delivered context itemIndex opened)"
      and i: "itemFor toString context itemIndex email = Inr item"
      by blast
    show ?thesis
    proof (cases "outputToBinaryOf context itemIndex")
      case True
      with itemFor_binary [OF i] show ?thesis by auto
    next
      case False
      with itemFor_text [OF i] e Inr show ?thesis by auto
    qed
  next
    case False
    from res mem show ?thesis
      by (auto simp: executeImapAction_single [OF False Inr] delivered_def False Inr
          split: sum.splits option.splits if_splits)
  qed
qed

theorem one_payload_area_witness:
  "\<not> outputToBinaryOf (contextOf ''INBOX'' [] (Some False) None ''ALL'') 0 \<and>
   executeImapAction decodeAscii (contextOf ''INBOX'' [] (Some False) None ''ALL'') 0
     (clientOf (constantly (Inr None)) (constantly (Yield email5 (Yield email9 Done))))
   = Inr [\<lparr>json = [''emlContent'' \<mapsto> ''Subject: five''], binary = None, pairedItem = 0\<rparr>,
          \<lparr>json = [''emlContent'' \<mapsto> ''Subject: nine''], binary = None, pairedItem = 0\<rparr>] \<and>
   binary \<lparr>json = [''emlContent'' \<mapsto> ''Subject: nine''], binary = None :: (string \<rightharpoonup> staged) option,
           pairedItem = (0::nat)\<rparr> = None"
proof -
  let ?item = "\<lparr>json = [''emlContent'' \<mapsto> ''Subject: nine''],
                binary = None :: (string \<rightharpoonup> staged) option, pairedItem = (0::nat)\<rparr>"
  have mem: "?item \<in> set [\<lparr>json = [''emlContent'' \<mapsto> ''Subject: five''], binary = None, pairedItem = 0\<rparr>, ?item]"
    by simp
  have textual: "\<not> outputToBinaryOf (contextOf ''INBOX'' [] (Some False) None ''ALL'') 0"
    by (simp add: concrete_parameters getNodeParameter_def)
  from one_payload_area [OF bulk_text_example mem] textual have "binary ?item = None"
    by simp
  with textual bulk_text_example show ?thesis by simp
qed

subsection \<open>C5: the file name of a staged message\<close>

text \<open>
  C5, as the routine has it. Every item returned in binary mode holds, under the
  configured property name, what the staging helper resolved to for the source of a
  delivered message, the file name \<open>mailboxPath + '_' + id + '.eml'\<close> and the media type
  \<open>message/rfc822\<close>; \<open>id\<close> is the decimal UID of the message on the bulk path and the
  requested \<open>emailUid\<close> string, as given, on the single-UID path.
\<close>

theorem binary_file_name:
  assumes res: "executeImapAction toString context itemIndex client = Inr items"
    and mem: "item \<in> set items"
    and bin: "outputToBinaryOf context itemIndex"
  shows "\<exists>opened email binaryData.
           mailboxOpen client (mailboxPathOf context itemIndex) True = Inr opened \<and>
           email \<in> set (delivered context itemIndex opened) \<and>
           prepareBinaryData context (source email)
             (mailboxPathOf context itemIndex @ ''_'' @ fileIdOf context itemIndex email @ ''.eml'')
             ''message/rfc822'' = Inr binaryData \<and>
           binary item = Some [binaryPropertyNameOf context itemIndex \<mapsto> binaryData]"
proof (cases "mailboxOpen client (mailboxPathOf context itemIndex) True")
  case (Inl e)
  with res show ?thesis by (simp add: executeImapAction_closed)
next
  case (Inr opened)
  show ?thesis
  proof (cases "emailUidOf context itemIndex = []")
    case True
    from bulk_items_from_messages [OF True Inr res mem]
    obtain email where e: "email \<in> set (delivered context itemIndex opened)"
      and i: "itemFor toString context itemIndex email = Inr item"
      by blast
    from itemFor_binary [OF i bin] e Inr True show ?thesis
      by (auto simp: fileIdOf_def)
  next
    case False
    from res mem bin show ?thesis
      by (auto simp: executeImapAction_single [OF False Inr] delivered_def False Inr fileIdOf_def
          split: sum.splits option.splits if_splits)
  qed
qed

theorem binary_file_name_witness:
  "outputToBinaryOf (contextOf ''INBOX'' [] None (Some ''data'') ''ALL'') 0 \<and>
   stagedUnder ''data''
     (executeImapAction decodeAscii (contextOf ''INBOX'' [] None (Some ''data'') ''ALL'') 0
        (clientOf (constantly (Inr None)) (constantly (Yield email5 (Yield email9 Done)))))
   = [Some (Some ''Subject: five'', ''INBOX_5.eml'', ''message/rfc822''),
      Some (Some ''Subject: nine'', ''INBOX_9.eml'', ''message/rfc822'')]"
proof -
  let ?ctx = "contextOf ''INBOX'' [] None (Some ''data'') ''ALL''"
  let ?item = "\<lparr>json = Map.empty,
           binary = Some [''data'' \<mapsto> (Some ''Subject: nine'', ''INBOX_9.eml'', ''message/rfc822'')],
           pairedItem = (0::nat)\<rparr>"
  have mem: "?item \<in> set [\<lparr>json = Map.empty,
           binary = Some [''data'' \<mapsto> (Some ''Subject: five'', ''INBOX_5.eml'', ''message/rfc822'')],
           pairedItem = 0\<rparr>, ?item]"
    by simp
  have bin: "outputToBinaryOf ?ctx 0"
    by (simp add: concrete_parameters getNodeParameter_def)
  from binary_file_name [OF bulk_binary_example mem bin] bin bulk_binary_example
  show ?thesis
    by (simp add: stagedUnder_def)
qed

text \<open>
  With the UID of the message in the name the statement fails on the single-UID path:
  asked for \<open>*\<close>, the client answers with the message of highest UID, here 9, and the
  file is named \<open>INBOX_*.eml\<close>, not \<open>INBOX_9.eml\<close>.
\<close>

theorem single_file_name_counterexample:
  "uidFetch (contextOf ''INBOX'' ''*'' (Some True) (Some ''data'') ''ALL'') 0
     (selectedOf (constantly (Inr (Some email9))) (constantly Done)) = Inr (Some email9) \<and>
   ''INBOX'' @ ''_'' @ numberToString (uid email9) @ ''.eml'' = ''INBOX_9.eml'' \<and>
   stagedUnder ''data''
     (executeImapAction decodeAscii (contextOf ''INBOX'' ''*'' (Some True) (Some ''data'') ''ALL'') 0
        (clientOf (constantly (Inr (Some email9))) (constantly Done)))
   = [Some (Some ''Subject: nine'', ''INBOX_*.eml'', ''message/rfc822'')]"
  by (simp add: executeImapAction_def contextOf_def clientOf_def selectedOf_def constantly_def
      getNodeParameter_def email9_def recordingHelper_def stagedUnder_def uidFetch_def
      numberToString_examples)

subsection \<open>C6: the search parameters are not read on the single-UID path\<close>

text \<open>
  C6. With a non-empty \<open>emailUid\<close>, two invocations that differ only in what
  \<open>getEmailSearchParametersFromNode\<close> returns have the same outcome.
\<close>

theorem search_criteria_ignored:
  assumes uid: "emailUidOf context itemIndex \<noteq> []"
  shows "executeImapAction toString
           (context\<lparr>getEmailSearchParametersFromNode := search1\<rparr>) itemIndex client =
         executeImapAction toString
           (context\<lparr>getEmailSearchParametersFromNode := search2\<rparr>) itemIndex client"
proof (cases "mailboxOpen client (mailboxPathOf context itemIndex) True")
  case (Inl e)
  then show ?thesis
    by (simp add: executeImapAction_closed search_update_reads)
next
  case (Inr opened)
  have "executeImapAction toString
          (context\<lparr>getEmailSearchParametersFromNode := search\<rparr>) itemIndex client =
        executeImapAction toString context itemIndex client" for search
    using uid Inr
    by (simp add: executeImapAction_single search_update_reads
        split: sum.split option.split)
  then show ?thesis by simp
qed

theorem search_criteria_ignored_witness:
  "emailUidOf (contextOf ''INBOX'' ''42'' (Some False) None ''UNSEEN'') 0 \<noteq> [] \<and>
   unseenOnly ''UNSEEN'' \<noteq> unseenOnly ''ALL'' \<and>
   executeImapAction decodeAscii (contextOf ''INBOX'' ''42'' (Some False) None ''UNSEEN'') 0
     (clientOf (constantly (Inr (Some email42))) unseenOnly) =
   executeImapAction decodeAscii (contextOf ''INBOX'' ''42'' (Some False) None ''ALL'') 0
     (clientOf (constantly (Inr (Some email42))) unseenOnly)"
proof -
  let ?ctx = "contextOf ''INBOX'' ''42'' (Some False) None ''UNSEEN''"
  have h1: "emailUidOf ?ctx 0 \<noteq> []"
    by (simp add: concrete_parameters)
  have u: "?ctx\<lparr>getEmailSearchParametersFromNode := constantly ''UNSEEN''\<rparr> = ?ctx"
    "?ctx\<lparr>getEmailSearchParametersFromNode := constantly ''ALL''\<rparr>
       = contextOf ''INBOX'' ''42'' (Some False) None ''ALL''"
    by (simp_all add: contextOf_def)
  have d: "unseenOnly ''UNSEEN'' \<noteq> unseenOnly ''ALL''"
    by (simp add: unseenOnly_def)
  from search_criteria_ignored [OF h1, of decodeAscii "constantly ''UNSEEN''"
      "clientOf (constantly (Inr (Some email42))) unseenOnly" "constantly ''ALL''"] h1 d
  show ?thesis
    by (simp add: u)
qed

subsection \<open>C7: a rejected stream discards the items\<close>

text \<open>
  C7. On the bulk path, when the stream rejects with \<open>e\<close> after delivering \<open>emails\<close>,
  the routine returns no item; when the loop body succeeded on each of those messages,
  it fails with \<open>e\<close> itself.
\<close>

theorem bulk_stream_error_discards:
  assumes uid: "emailUidOf context itemIndex = []"
    and opn: "mailboxOpen client (mailboxPathOf context itemIndex) True = Inr opened"
    and str: "searchStream context itemIndex opened = deliver emails (Some e)"
  shows "(\<exists>e'. executeImapAction toString context itemIndex client = Inl e') \<and>
         ((\<forall>email \<in> set emails. \<exists>item. itemFor toString context itemIndex email = Inr item) \<longrightarrow>
            executeImapAction toString context itemIndex client = Inl e)"
proof -
  have a: "\<exists>e'. executeImapAction toString context itemIndex client = Inl e'"
    by (simp add: executeImapAction_bulk [OF uid opn] str yielded_deliver ending_deliver
        split: sum.split)
  have b: "executeImapAction toString context itemIndex client = Inl e"
    if "\<forall>email \<in> set emails. \<exists>item. itemFor toString context itemIndex email = Inr item"
  proof -
    from that obtain items where "collect (itemFor toString context itemIndex) emails = Inr items"
      using collect_total by blast
    then show ?thesis
      by (simp add: executeImapAction_bulk [OF uid opn] str yielded_deliver ending_deliver)
  qed
  from a b show ?thesis by blast
qed

theorem bulk_stream_error_discards_witness:
  "searchStream (contextOf ''INBOX'' [] (Some False) None ''ALL'') 0
     (selectedOf (constantly (Inr None))
        (constantly (Yield email5 (Yield email9 (Raise (Error ''Connection not available''))))))
   = deliver [email5, email9] (Some (Error ''Connection not available'')) \<and>
   itemFor decodeAscii (contextOf ''INBOX'' [] (Some False) None ''ALL'') 0 email5
   = Inr \<lparr>json = [''emlContent'' \<mapsto> ''Subject: five''], binary = None, pairedItem = 0\<rparr> \<and>
   itemFor decodeAscii (contextOf ''INBOX'' [] (Some False) None ''ALL'') 0 email9
   = Inr \<lparr>json = [''emlContent'' \<mapsto> ''Subject: nine''], binary = None, pairedItem = 0\<rparr> \<and>
   executeImapAction decodeAscii (contextOf ''INBOX'' [] (Some False) None ''ALL'') 0
     (clientOf (constantly (Inr None))
        (constantly (Yield email5 (Yield email9 (Raise (Error ''Connection not available''))))))
   = Inl (Error ''Connection not available'')"
proof -
  let ?ctx = "contextOf ''INBOX'' [] (Some False) None ''ALL''"
  let ?one = "constantly (Inr None) :: string \<Rightarrow> error + fetchMessage option"
  let ?many = "constantly (Yield email5 (Yield email9 (Raise (Error ''Connection not available''))))
                 :: string \<Rightarrow> stream"
  have h1: "emailUidOf ?ctx 0 = []"
    by (simp add: concrete_parameters)
  have h2: "mailboxOpen (clientOf ?one ?many) (mailboxPathOf ?ctx 0) True
              = Inr (selectedOf ?one ?many)"
    by (simp add: concrete_client)
  have h3: "searchStream ?ctx 0 (selectedOf ?one ?many)
              = deliver [email5, email9] (Some (Error ''Connection not available''))"
    by (simp add: concrete_client constantly_def)
  have i5: "itemFor decodeAscii ?ctx 0 email5
      = Inr \<lparr>json = [''emlContent'' \<mapsto> ''Subject: five''], binary = None, pairedItem = 0\<rparr>"
    by (simp add: itemFor_def loopBody_def concrete_parameters getNodeParameter_def
        email5_def decodeAscii_def)
  have i9: "itemFor decodeAscii ?ctx 0 email9
      = Inr \<lparr>json = [''emlContent'' \<mapsto> ''Subject: nine''], binary = None, pairedItem = 0\<rparr>"
    by (simp add: itemFor_def loopBody_def concrete_parameters getNodeParameter_def
        email9_def decodeAscii_def)
  have h4: "\<forall>email \<in> set [email5, email9]. \<exists>item. itemFor decodeAscii ?ctx 0 email = Inr item"
    using i5 i9 by simp
  from bulk_stream_error_discards [OF h1 h2 h3, of decodeAscii] h4
  have "executeImapAction decodeAscii ?ctx 0 (clientOf ?one ?many)
          = Inl (Error ''Connection not available'')"
    by blast
  with h3 i5 i9 show ?thesis by simp
qed

subsection \<open>C8: the binary property name is not validated\<close>

text \<open>
  C8, as the routine has it. The routine does not validate the binary property name. In
  binary mode, whether an invocation fails, with which error, and which staged data it
  returns do not depend on the name: there is one outcome, an error or a list of staged
  data, such that for every value of the parameter, unset or supplied, the empty string
  included, the invocation fails with that error or returns those data, each under the
  name read (the supplied string, or \<open>data\<close> when the parameter is unset). In text mode
  the outcome does not depend on the parameter at all.
\<close>

theorem binary_name_not_validated:
  "if outputToBinaryOf context itemIndex
   then \<exists>outcome. \<forall>v.
          executeImapAction toString (withBinaryPropertyName context itemIndex v) itemIndex client =
            (case outcome of
               Inl e \<Rightarrow> Inl e
             | Inr blobs \<Rightarrow> Inr (stagedItems (getNodeParameter v ''data'') itemIndex blobs))
   else \<exists>outcome. \<forall>v.
          executeImapAction toString (withBinaryPropertyName context itemIndex v) itemIndex client =
            outcome"
proof (cases "outputToBinaryOf context itemIndex")
  case True
  with named_binary_outcome [OF True, of toString client] show ?thesis
    by simp
next
  case False
  have "\<exists>outcome. \<forall>v.
          executeImapAction toString (withBinaryPropertyName context itemIndex v) itemIndex client =
            outcome"
    by (rule exI [of _ "executeImapAction toString context itemIndex client"])
      (simp add: named_text_outcome [OF False])
  with False show ?thesis
    by simp
qed

text \<open>
  The INBOX/42 run in binary mode: under the empty name and under no name the same
  message is staged, under \<open>''\<close> and under \<open>data\<close>.
\<close>

theorem binary_name_not_validated_witness:
  "outputToBinaryOf (contextOf ''INBOX'' ''42'' (Some True) (Some ''data'') ''ALL'') 0 \<and>
   stagedUnder []
     (executeImapAction decodeAscii
        (withBinaryPropertyName (contextOf ''INBOX'' ''42'' (Some True) (Some ''data'') ''ALL'') 0
           (Some []))
        0 (clientOf (constantly (Inr (Some email42))) (constantly Done)))
   = [Some (Some ''Subject: forty-two'', ''INBOX_42.eml'', ''message/rfc822'')] \<and>
   stagedUnder ''data''
     (executeImapAction decodeAscii
        (withBinaryPropertyName (contextOf ''INBOX'' ''42'' (Some True) (Some ''data'') ''ALL'') 0
           None)
        0 (clientOf (constantly (Inr (Some email42))) (constantly Done)))
   = [Some (Some ''Subject: forty-two'', ''INBOX_42.eml'', ''message/rfc822'')]"
proof -
  let ?ctx = "contextOf ''INBOX'' ''42'' (Some True) (Some ''data'') ''ALL''"
  let ?client = "clientOf (constantly (Inr (Some email42))) (constantly Done)"
  let ?blob = "(Some ''Subject: forty-two'', ''INBOX_42.eml'', ''message/rfc822'') :: staged"
  have bin: "outputToBinaryOf ?ctx 0"
    by (simp add: concrete_parameters getNodeParameter_def)
  from binary_name_not_validated [of ?ctx 0 decodeAscii ?client] bin
  obtain outcome where all: "\<And>v.
      executeImapAction decodeAscii (withBinaryPropertyName ?ctx 0 v) 0 ?client =
        (case outcome of
           Inl e \<Rightarrow> Inl e
         | Inr blobs \<Rightarrow> Inr (stagedItems (getNodeParameter v ''data'') 0 blobs))"
    by auto
  have same: "withBinaryPropertyName ?ctx 0 (Some ''data'') = ?ctx"
    by (simp add: withBinaryPropertyName_def contextOf_def constantly_def fun_eq_iff)
  from all [of "Some ''data''"] have "outcome = Inr [?blob]"
    by (cases outcome)
      (auto simp: same single_binary_example stagedItems_def getNodeParameter_def
         map_eq_Cons_conv dest: map_upd_eqD1)
  with all bin show ?thesis
    by (simp add: stagedUnder_def stagedItems_def getNodeParameter_def)
qed

text \<open>
  A request in binary mode with no property name is processed, not rejected: with the
  parameter unset the message is staged under \<open>data\<close>, with the empty string supplied
  it is staged under the empty name.
\<close>

theorem unnamed_binary_field_counterexample:
  "binaryPropertyNameParameter (contextOf ''INBOX'' ''42'' (Some True) None ''ALL'') 0 = None \<and>
   outputToBinaryOf (contextOf ''INBOX'' ''42'' (Some True) None ''ALL'') 0 \<and>
   stagedUnder ''data''
     (executeImapAction decodeAscii (contextOf ''INBOX'' ''42'' (Some True) None ''ALL'') 0
        (clientOf (constantly (Inr (Some email42))) (constantly Done)))
   = [Some (Some ''Subject: forty-two'', ''INBOX_42.eml'', ''message/rfc822'')] \<and>
   binaryPropertyNameParameter (contextOf ''INBOX'' ''42'' (Some True) (Some []) ''ALL'') 0
   = Some [] \<and>
   outputToBinaryOf (contextOf ''INBOX'' ''42'' (Some True) (Some []) ''ALL'') 0 \<and>
   stagedUnder []
     (executeImapAction decodeAscii (contextOf ''INBOX'' ''42'' (Some True) (Some []) ''ALL'') 0
        (clientOf (constantly (Inr (Some email42))) (constantly Done)))
   = [Some (Some ''Subject: forty-two'', ''INBOX_42.eml'', ''message/rfc822'')]"
  by (simp add: executeImapAction_def contextOf_def clientOf_def selectedOf_def constantly_def
      getNodeParameter_def email42_def recordingHelper_def stagedUnder_def outputToBinaryOf_def)

subsection \<open>C9: the single-UID path agrees with the original routine\<close>

text \<open>
  C9. With a non-empty \<open>emailUid\<close>, when the mailbox opens and \<open>fetchOne\<close> answers with
  a message that carries a source, the dual-mode routine and the original routine have
  the same outcome, and a returned list is a single item paired to \<open>itemIndex\<close>.
\<close>

theorem single_uid_refines_original:
  assumes uid: "emailUidOf context itemIndex \<noteq> []"
    and opn: "mailboxOpen client (mailboxPathOf context itemIndex) True = Inr opened"
    and one: "uidFetch context itemIndex opened = Inr (Some emailInfo)"
    and src: "source emailInfo = Some src"
  shows "executeImapAction toString context itemIndex client =
           executeImapAction_original toString context itemIndex client \<and>
         (\<forall>items. executeImapAction toString context itemIndex client = Inr items \<longrightarrow>
            (\<exists>item. items = [item] \<and> pairedItem item = itemIndex))"
  using assms
  by (auto simp: executeImapAction_def executeImapAction_original_def mailboxPathOf_def
      emailUidOf_def uidFetch_def split: sum.splits)

theorem single_uid_refines_original_witness:
  "emailUidOf (contextOf ''INBOX'' ''42'' (Some True) (Some ''data'') ''ALL'') 0 \<noteq> [] \<and>
   source email42 = Some ''Subject: forty-two'' \<and>
   executeImapAction decodeAscii (contextOf ''INBOX'' ''42'' (Some True) (Some ''data'') ''ALL'') 0
     (clientOf (constantly (Inr (Some email42))) (constantly Done)) =
   executeImapAction_original decodeAscii
     (contextOf ''INBOX'' ''42'' (Some True) (Some ''data'') ''ALL'') 0
     (clientOf (constantly (Inr (Some email42))) (constantly Done)) \<and>
   executeImapAction_original decodeAscii
     (contextOf ''INBOX'' ''42'' (Some True) (Some ''data'') ''ALL'') 0
     (clientOf (constantly (Inr (Some email42))) (constantly Done))
   = Inr [\<lparr>json = Map.empty,
           binary = Some [''data'' \<mapsto> (Some ''Subject: forty-two'', ''INBOX_42.eml'', ''message/rfc822'')],
           pairedItem = 0\<rparr>]"
proof -
  let ?ctx = "contextOf ''INBOX'' ''42'' (Some True) (Some ''data'') ''ALL''"
  let ?one = "constantly (Inr (Some email42)) :: string \<Rightarrow> error + fetchMessage option"
  let ?many = "constantly Done :: string \<Rightarrow> stream"
  have h1: "emailUidOf ?ctx 0 \<noteq> []"
    by (simp add: concrete_parameters)
  have h2: "mailboxOpen (clientOf ?one ?many) (mailboxPathOf ?ctx 0) True
              = Inr (selectedOf ?one ?many)"
    by (simp add: concrete_client)
  have h3: "uidFetch ?ctx 0 (selectedOf ?one ?many) = Inr (Some email42)"
    by (simp add: concrete_client constantly_def)
  have h4: "source email42 = Some ''Subject: forty-two''"
    by (simp add: email42_def)
  from single_uid_refines_original [OF h1 h2 h3 h4, of decodeAscii] h1 h4 single_binary_example
  show ?thesis
    by simp
qed

subsection \<open>C10: no empty list\<close>

text \<open>
  C10. A list the routine returns is never empty. No \<open>return\<close> of the routine yields
  \<open>null\<close>, so the outcome has two forms only: a thrown error (\<open>Inl\<close>) or a list
  (\<open>Inr\<close>).
\<close>

theorem never_empty_list:
  assumes "executeImapAction toString context itemIndex client = Inr items"
  shows "items \<noteq> []"
proof (cases "mailboxOpen client (mailboxPathOf context itemIndex) True")
  case (Inl e)
  with assms show ?thesis by (simp add: executeImapAction_closed)
next
  case (Inr opened)
  show ?thesis
  proof (cases "emailUidOf context itemIndex = []")
    case True
    from assms show ?thesis
      by (auto simp: executeImapAction_bulk [OF True Inr]
          split: sum.splits option.splits if_splits dest: collect_length)
  next
    case False
    from assms show ?thesis
      by (auto simp: executeImapAction_single [OF False Inr]
          split: sum.splits option.splits if_splits)
  qed
qed

theorem never_empty_list_witness:
  "executeImapAction decodeAscii (contextOf ''INBOX'' ''42'' (Some True) (Some ''data'') ''ALL'') 0
     (clientOf (constantly (Inr (Some email42))) (constantly Done))
   = Inr [\<lparr>json = Map.empty,
           binary = Some [''data'' \<mapsto> (Some ''Subject: forty-two'', ''INBOX_42.eml'', ''message/rfc822'')],
           pairedItem = 0\<rparr>]
   \<and> [\<lparr>json = Map.empty,
           binary = Some [''data'' \<mapsto> (Some ''Subject: forty-two'', ''INBOX_42.eml'', ''message/rfc822'')],
           pairedItem = (0::nat)\<rparr>] \<noteq> []"
  using never_empty_list [OF single_binary_example] single_binary_example by simp

end
